theory Spec2Isabelle
  imports Main "HOL-Library.Word" "HOL-Library.Sublist"
begin

section \<open>shipbot: the data of cmd/shipbot/main.go\<close>

text \<open>
  Go strings are byte sequences and \<open>len\<close> counts bytes; \<^typ>\<open>string\<close> is a list of
  8-bit characters, so \<^const>\<open>length\<close> is Go's \<open>len\<close>. \<open>int64\<close> is a 64-bit word. Go's
  \<open>int\<close> is taken at its width on the 64-bit platforms the tool is built for, so that the
  conversion \<open>int64(iv(existing.Size))\<close> keeps the value.
\<close>

type_synonym int64 = "64 word"
type_synonym go_int = "64 word"

text \<open>The two structs of the configuration file (lines 45 to 56).\<close>

record AssetMapping =
  Source :: string
  GithubName :: string
  Optional :: bool

record Config =
  Owner :: string
  Repo :: string
  Assets :: "AssetMapping list"

text \<open>
  The fields of go-github's \<open>RepositoryRelease\<close> and \<open>ReleaseAsset\<close> that main.go reads
  or writes. Every field is a pointer in Go: \<open>None\<close> is the nil pointer. The asset's
  \<open>Name\<close> field is \<open>AssetName\<close> here, since two records cannot share a field name.
\<close>

record RepositoryRelease =
  ID :: "int64 option"
  TagName :: "string option"
  TargetCommitish :: "string option"
  Name :: "string option"
  Body :: "string option"
  Draft :: "bool option"

record ReleaseAsset =
  AssetName :: "string option"
  Size :: "go_int option"

text \<open>The client that \<open>main\<close> builds from the credentials (lines 94 to 111).\<close>

datatype client =
    TokenClient string
  | BasicAuthClient string string

record Shipbot =
  Client :: client
  Config :: Config

subsection \<open>Errors\<close>

text \<open>
  One constructor for every \<open>fmt.Errorf\<close> of main.go, carrying what the message formats.
  The error of a collaborator (the registry, the operating system, the subprocess) is its
  message. In the words of the specification: \<open>ErrListingReleases\<close>, \<open>ErrCreatingRelease\<close>
  and \<open>ErrListingAssets\<close> are the RegistryError, \<open>ErrFindSha\<close> (wrapping \<open>ErrGitSha\<close> or
  \<open>ErrShaLength\<close>) the ResolutionError, \<open>ErrStat\<close> the SourceNotFoundError,
  \<open>ErrSizeMismatch\<close> the AssetConflictError, \<open>ErrOpen\<close> and \<open>ErrUpload\<close> the UploadError.
\<close>

datatype error =
    ErrListingReleases string
  | ErrFindSha string error
  | ErrGitSha string string
  | ErrShaLength string
  | ErrCreatingRelease string
  | ErrListingAssets string
  | ErrStat string string
  | ErrSizeMismatch string
  | ErrOpen string string
  | ErrUpload string string

subsection \<open>Effects\<close>

text \<open>
  Every call that leaves the process is an event, appended to the trace in the order the
  code makes it. The four registry calls are the network calls.
\<close>

datatype event =
    GetwdCall
  | ReadFileCall string
  | ListReleasesCall client string string
  | GitRevListCall string string
  | CreateReleaseCall client string string RepositoryRelease
  | ListReleaseAssetsCall client string string int64
  | StatCall string
  | OpenCall string
  | UploadReleaseAssetCall client string string int64 string string
  | CloseCall string

fun is_network :: "event \<Rightarrow> bool" where
  "is_network (ListReleasesCall c ow rp) = True"
| "is_network (CreateReleaseCall c ow rp r) = True"
| "is_network (ListReleaseAssetsCall c ow rp i) = True"
| "is_network (UploadReleaseAssetCall c ow rp i n p) = True"
| "is_network e = False"

fun is_create :: "event \<Rightarrow> bool" where
  "is_create (CreateReleaseCall c ow rp r) = True"
| "is_create e = False"

fun is_upload :: "event \<Rightarrow> bool" where
  "is_upload (UploadReleaseAssetCall c ow rp i n p) = True"
| "is_upload e = False"

text \<open>
  The outside world answers each call. An answer may depend on everything that happened
  before (the first argument is the trace so far), so a registry that accepts an upload once
  and refuses it the second time is a world too. \<open>RunGit\<close> is
  \<open>exec.Command("git", "rev-list", "-n", "1", tag)\<close> run in a directory: the error of
  \<open>cmd.Run()\<close> (\<open>None\<close> when the subprocess exits with code 0) and what it wrote to its
  standard output. \<open>Unmarshal\<close> is the YAML parser.
\<close>

record world =
  Getwd :: "event list \<Rightarrow> string + string"
  ReadFile :: "event list \<Rightarrow> string \<Rightarrow> string + string"
  Unmarshal :: "string \<Rightarrow> string + Config"
  ListReleases :: "event list \<Rightarrow> client \<Rightarrow> string \<Rightarrow> string \<Rightarrow> string + RepositoryRelease list"
  RunGit :: "event list \<Rightarrow> string \<Rightarrow> string \<Rightarrow> string option \<times> string"
  CreateRelease ::
    "event list \<Rightarrow> client \<Rightarrow> string \<Rightarrow> string \<Rightarrow> RepositoryRelease \<Rightarrow> string + RepositoryRelease"
  ListReleaseAssets ::
    "event list \<Rightarrow> client \<Rightarrow> string \<Rightarrow> string \<Rightarrow> int64 \<Rightarrow> string + ReleaseAsset list"
  Stat :: "event list \<Rightarrow> string \<Rightarrow> string + int64"
  Open :: "event list \<Rightarrow> string \<Rightarrow> string + unit"
  UploadReleaseAsset ::
    "event list \<Rightarrow> client \<Rightarrow> string \<Rightarrow> string \<Rightarrow> int64 \<Rightarrow> string \<Rightarrow> string \<Rightarrow> string + ReleaseAsset"

text \<open>
  The state of the process: the package-level variables \<open>tag\<close> and \<open>target\<close> (lines 37
  and 38; \<open>DoRelease\<close> writes \<open>target\<close>) and the trace.
\<close>

record state =
  tag :: string
  target :: string
  trace :: "event list"

definition emit :: "event \<Rightarrow> state \<Rightarrow> state" where
  "emit e st = st\<lparr>trace := trace st @ [e]\<rparr>"

subsection \<open>The pointer helpers (lines 249 to 276)\<close>

definition sv :: "string option \<Rightarrow> string" where
  "sv v = (case v of None \<Rightarrow> [] | Some x \<Rightarrow> x)"

definition iv :: "go_int option \<Rightarrow> go_int" where
  "iv v = (case v of None \<Rightarrow> 0 | Some x \<Rightarrow> x)"

definition i64v :: "int64 option \<Rightarrow> int64" where
  "i64v v = (case v of None \<Rightarrow> 0 | Some x \<Rightarrow> x)"

text \<open>\<open>s\<close> and \<open>b\<close> of the source (a pointer to a copy of the value).\<close>

definition s_ptr :: "string \<Rightarrow> string option" where
  "s_ptr v = Some v"

definition b_ptr :: "bool \<Rightarrow> bool option" where
  "b_ptr v = Some v"

section \<open>Commit resolution\<close>

subsection \<open>strings.TrimSpace\<close>

text \<open>
  \<open>strings.TrimSpace\<close> belongs to Go's standard library, not to this repository. It removes
  every leading and every trailing code point that \<open>unicode.IsSpace\<close> accepts. On the bytes
  of a string that is: the six ASCII bytes tab, line feed, vertical tab, form feed, carriage
  return and space, and the UTF-8 encodings of U+0085, U+00A0, U+1680, U+2000 to U+200A,
  U+2028, U+2029, U+202F, U+205F and U+3000. A string starts (ends) with a white space code
  point exactly when it starts (ends) with one of these byte sequences: the decoder rejects
  overlong forms, and each sequence begins with a byte that starts a code point.
\<close>

definition spaceRunes :: "string list" where
  "spaceRunes =
     [[CHR 0x09], [CHR 0x0A], [CHR 0x0B], [CHR 0x0C], [CHR 0x0D], [CHR 0x20],
      [CHR 0xC2, CHR 0x85], [CHR 0xC2, CHR 0xA0],
      [CHR 0xE1, CHR 0x9A, CHR 0x80],
      [CHR 0xE2, CHR 0x80, CHR 0x80], [CHR 0xE2, CHR 0x80, CHR 0x81],
      [CHR 0xE2, CHR 0x80, CHR 0x82], [CHR 0xE2, CHR 0x80, CHR 0x83],
      [CHR 0xE2, CHR 0x80, CHR 0x84], [CHR 0xE2, CHR 0x80, CHR 0x85],
      [CHR 0xE2, CHR 0x80, CHR 0x86], [CHR 0xE2, CHR 0x80, CHR 0x87],
      [CHR 0xE2, CHR 0x80, CHR 0x88], [CHR 0xE2, CHR 0x80, CHR 0x89],
      [CHR 0xE2, CHR 0x80, CHR 0x8A],
      [CHR 0xE2, CHR 0x80, CHR 0xA8], [CHR 0xE2, CHR 0x80, CHR 0xA9],
      [CHR 0xE2, CHR 0x80, CHR 0xAF],
      [CHR 0xE2, CHR 0x81, CHR 0x9F],
      [CHR 0xE3, CHR 0x80, CHR 0x80]]"

definition leadingSpace :: "string \<Rightarrow> string option" where
  "leadingSpace str = List.find (\<lambda>e. prefix e str) spaceRunes"

definition trailingSpace :: "string \<Rightarrow> string option" where
  "trailingSpace str = List.find (\<lambda>e. suffix e str) spaceRunes"

function TrimLeftSpace :: "string \<Rightarrow> string" where
  "TrimLeftSpace str =
     (case leadingSpace str of
        None \<Rightarrow> str
      | Some e \<Rightarrow> TrimLeftSpace (drop (length e) str))"
  by pat_completeness auto
termination
proof (relation "measure length")
  show "wf (measure length)" by simp
next
  fix str e
  assume "leadingSpace str = Some e"
  then have "e \<in> set spaceRunes" "prefix e str"
    unfolding leadingSpace_def by (auto simp: find_Some_iff)
  then have "e \<noteq> []" "str \<noteq> []"
    by (auto simp: spaceRunes_def)
  then show "(drop (length e) str, str) \<in> measure length"
    by simp
qed

function TrimRightSpace :: "string \<Rightarrow> string" where
  "TrimRightSpace str =
     (case trailingSpace str of
        None \<Rightarrow> str
      | Some e \<Rightarrow> TrimRightSpace (take (length str - length e) str))"
  by pat_completeness auto
termination
proof (relation "measure length")
  show "wf (measure length)" by simp
next
  fix str e
  assume "trailingSpace str = Some e"
  then have "e \<in> set spaceRunes" "suffix e str"
    unfolding trailingSpace_def by (auto simp: find_Some_iff)
  then have "e \<noteq> []" "str \<noteq> []"
    by (auto simp: spaceRunes_def)
  then show "(take (length str - length e) str, str) \<in> measure length"
    by simp
qed

declare TrimLeftSpace.simps [simp del] TrimRightSpace.simps [simp del]

definition TrimSpace :: "string \<Rightarrow> string" where
  "TrimSpace str = TrimRightSpace (TrimLeftSpace str)"

subsection \<open>findCommitSha (lines 184 to 198)\<close>

definition findCommitSha ::
  "world \<Rightarrow> string \<Rightarrow> string \<Rightarrow> state \<Rightarrow> (error + string) \<times> state" where
  "findCommitSha w basedir tg st =
     (let st1 = emit (GitRevListCall basedir tg) st in
      case RunGit w (trace st) basedir tg of
        (Some err, out) \<Rightarrow> (Inl (ErrGitSha tg err), st1)
      | (None, out) \<Rightarrow>
          (let sha = TrimSpace out in
           if length sha \<noteq> 40 then (Inl (ErrShaLength sha), st1)
           else (Inr sha, st1)))"

section \<open>Per-asset reconciliation\<close>

text \<open>\<open>int64(x)\<close> on a Go \<open>int\<close>: the value is kept.\<close>

definition to_int64 :: "go_int \<Rightarrow> int64" where
  "to_int64 x = x"

text \<open>
  \<open>syncAsset\<close> (lines 200 to 247). \<open>os.Stat\<close> answers with an error or with the file's
  information, of which the code reads \<open>Size()\<close> only. The map \<open>assets\<close> holds no nil
  pointer (line 170 dereferences every asset it stores), so \<open>existing != nil\<close> is the
  presence of the key. The log lines, and \<open>filepath.Abs\<close> whose result is only logged, are
  left out. \<open>defer f.Close()\<close> runs when the function returns after a successful open.
\<close>

definition syncAsset ::
  "world \<Rightarrow> Shipbot \<Rightarrow> RepositoryRelease \<Rightarrow> AssetMapping \<Rightarrow> (string \<rightharpoonup> ReleaseAsset) \<Rightarrow> state
     \<Rightarrow> error option \<times> state" where
  "syncAsset w sb release assetMapping assets st =
     (let st1 = emit (StatCall (Source assetMapping)) st in
      case Stat w (trace st) (Source assetMapping) of
        Inl err \<Rightarrow>
          if \<not> Optional assetMapping then (Some (ErrStat (Source assetMapping) err), st1)
          else (None, st1)
      | Inr srcSize \<Rightarrow>
          (case assets (GithubName assetMapping) of
             Some existing \<Rightarrow>
               if to_int64 (iv (Size existing)) \<noteq> srcSize
               then (Some (ErrSizeMismatch (GithubName assetMapping)), st1)
               else (None, st1)
           | None \<Rightarrow>
               (let st2 = emit (OpenCall (Source assetMapping)) st1 in
                case Open w (trace st1) (Source assetMapping) of
                  Inl err \<Rightarrow> (Some (ErrOpen (Source assetMapping) err), st2)
                | Inr f \<Rightarrow>
                    (let st3 = emit (UploadReleaseAssetCall (Client sb) (Owner (Config sb))
                                 (Repo (Config sb)) (i64v (ID release))
                                 (GithubName assetMapping) (Source assetMapping)) st2;
                         st4 = emit (CloseCall (Source assetMapping)) st3 in
                     case UploadReleaseAsset w (trace st2) (Client sb) (Owner (Config sb))
                            (Repo (Config sb)) (i64v (ID release))
                            (GithubName assetMapping) (Source assetMapping) of
                       Inl err \<Rightarrow> (Some (ErrUpload (GithubName assetMapping) err), st4)
                     | Inr asset \<Rightarrow> (None, st4)))))"

section \<open>DoRelease (lines 123 to 182)\<close>

text \<open>The loop of lines 130 to 136: \<open>found\<close> starts as nil and every match overwrites it.\<close>

fun findRelease ::
  "string \<Rightarrow> RepositoryRelease list \<Rightarrow> RepositoryRelease option \<Rightarrow> RepositoryRelease option" where
  "findRelease tg [] found = found"
| "findRelease tg (release # releases) found =
     findRelease tg releases (if sv (TagName release) = tg then Some release else found)"

text \<open>
  Lines 139 to 144: with no \<open>-target\<close>, the commit of the tag. The assignment
  \<open>target, err = findCommitSha(...)\<close> writes \<open>target\<close> on both paths (the empty string with
  an error).
\<close>

definition resolveTarget :: "world \<Rightarrow> string \<Rightarrow> state \<Rightarrow> error option \<times> state" where
  "resolveTarget w buildDir st =
     (if target st = [] then
        (case findCommitSha w buildDir (tag st) st of
           (Inl err, st1) \<Rightarrow> (Some (ErrFindSha (tag st) err), st1\<lparr>target := []\<rparr>)
         | (Inr sha, st1) \<Rightarrow> (None, st1\<lparr>target := sha\<rparr>))
      else (None, st))"

text \<open>Lines 147 to 153: the release to create; its other fields stay nil.\<close>

definition newRelease :: "state \<Rightarrow> RepositoryRelease" where
  "newRelease st =
     \<lparr>ID = None,
      TagName = s_ptr (tag st),
      TargetCommitish = s_ptr (target st),
      Name = s_ptr (tag st),
      Body = s_ptr (''Release '' @ tag st @ '' (draft)''),
      Draft = b_ptr True\<rparr>"

text \<open>Lines 138 to 160: the release to go on with, created when none was found.\<close>

definition ensureRelease ::
  "world \<Rightarrow> Shipbot \<Rightarrow> string \<Rightarrow> RepositoryRelease option \<Rightarrow> state
     \<Rightarrow> (error + RepositoryRelease) \<times> state" where
  "ensureRelease w sb buildDir found st =
     (case found of
        Some release \<Rightarrow> (Inr release, st)
      | None \<Rightarrow>
          (case resolveTarget w buildDir st of
             (Some err, st1) \<Rightarrow> (Inl err, st1)
           | (None, st1) \<Rightarrow>
               (let release = newRelease st1;
                    st2 = emit (CreateReleaseCall (Client sb) (Owner (Config sb))
                            (Repo (Config sb)) release) st1 in
                case CreateRelease w (trace st1) (Client sb) (Owner (Config sb))
                       (Repo (Config sb)) release of
                  Inl err \<Rightarrow> (Inl (ErrCreatingRelease err), st2)
                | Inr created \<Rightarrow> (Inr created, st2))))"

text \<open>Lines 168 to 171: the assets by name; a later asset of the same name overwrites.\<close>

fun buildAssetMap ::
  "ReleaseAsset list \<Rightarrow> (string \<rightharpoonup> ReleaseAsset) \<Rightarrow> (string \<rightharpoonup> ReleaseAsset)" where
  "buildAssetMap [] assetMap = assetMap"
| "buildAssetMap (asset # assets) assetMap =
     buildAssetMap assets (assetMap(sv (AssetName asset) \<mapsto> asset))"

text \<open>Lines 173 to 179: the mappings in order, stopping at the first error.\<close>

fun syncAssets ::
  "world \<Rightarrow> Shipbot \<Rightarrow> RepositoryRelease \<Rightarrow> AssetMapping list \<Rightarrow> (string \<rightharpoonup> ReleaseAsset)
     \<Rightarrow> state \<Rightarrow> error option \<times> state" where
  "syncAssets w sb found [] assetMap st = (None, st)"
| "syncAssets w sb found (assetMapping # rest) assetMap st =
     (case syncAsset w sb found assetMapping assetMap st of
        (Some err, st1) \<Rightarrow> (Some err, st1)
      | (None, st1) \<Rightarrow> syncAssets w sb found rest assetMap st1)"

text \<open>Lines 162 to 181: what \<open>DoRelease\<close> does once \<open>found\<close> is a release.\<close>

definition releaseAssets ::
  "world \<Rightarrow> Shipbot \<Rightarrow> RepositoryRelease \<Rightarrow> state \<Rightarrow> error option \<times> state" where
  "releaseAssets w sb found st =
     (let st1 = emit (ListReleaseAssetsCall (Client sb) (Owner (Config sb)) (Repo (Config sb))
                  (i64v (ID found))) st in
      case ListReleaseAssets w (trace st) (Client sb) (Owner (Config sb)) (Repo (Config sb))
             (i64v (ID found)) of
        Inl err \<Rightarrow> (Some (ErrListingAssets err), st1)
      | Inr assets \<Rightarrow>
          syncAssets w sb found (Assets (Config sb)) (buildAssetMap assets Map.empty) st1)"

definition DoRelease :: "world \<Rightarrow> Shipbot \<Rightarrow> string \<Rightarrow> state \<Rightarrow> error option \<times> state" where
  "DoRelease w sb buildDir st =
     (let st1 = emit (ListReleasesCall (Client sb) (Owner (Config sb)) (Repo (Config sb))) st in
      case ListReleases w (trace st) (Client sb) (Owner (Config sb)) (Repo (Config sb)) of
        Inl err \<Rightarrow> (Some (ErrListingReleases err), st1)
      | Inr releases \<Rightarrow>
          (case ensureRelease w sb buildDir (findRelease (tag st1) releases None) st1 of
             (Inl err, st2) \<Rightarrow> (Some err, st2)
           | (Inr found, st2) \<Rightarrow> releaseAssets w sb found st2))"

section \<open>main (lines 58 to 116)\<close>

text \<open>
  The command line after \<open>flag.Parse()\<close>: a flag that is not given keeps its default, the
  empty string, and \<open>-builddir\<close> the working directory. The three variables of lines 40
  to 42 are read from the environment.
\<close>

record flags =
  flag_tag :: string
  flag_target :: string
  flag_config :: string
  flag_builddir :: "string option"

record environ =
  githubUser :: string
  githubPassword :: string
  githubAccessToken :: string

text \<open>\<open>glog.Fatalf\<close> ends the process: one constructor for each of main's.\<close>

datatype fatal =
    FatalGetwd string
  | FatalNoTag
  | FatalNoConfig
  | FatalReadConfig string string
  | FatalParseConfig string string
  | FatalNoCredentials
  | FatalUnexpected error

text \<open>Lines 94 to 111: the client, or nothing where the code ends the process.\<close>

definition newClient :: "environ \<Rightarrow> client option" where
  "newClient env =
     (if githubAccessToken env \<noteq> [] then Some (TokenClient (githubAccessToken env))
      else if githubUser env \<noteq> [] \<and> githubPassword env \<noteq> []
      then Some (BasicAuthClient (githubUser env) (githubPassword env))
      else None)"

definition main :: "world \<Rightarrow> environ \<Rightarrow> flags \<Rightarrow> fatal option \<times> state" where
  "main w env fl =
     (let st0 = \<lparr>tag = [], target = [], trace = [GetwdCall]\<rparr> in
      case Getwd w [] of
        Inl err \<Rightarrow> (Some (FatalGetwd err), st0)
      | Inr cwd \<Rightarrow>
          (let buildDir = (case flag_builddir fl of None \<Rightarrow> cwd | Some d \<Rightarrow> d);
               st1 = st0\<lparr>tag := flag_tag fl, target := flag_target fl\<rparr> in
           if tag st1 = [] then (Some FatalNoTag, st1)
           else if flag_config fl = [] then (Some FatalNoConfig, st1)
           else
             (let st2 = emit (ReadFileCall (flag_config fl)) st1 in
              case ReadFile w (trace st1) (flag_config fl) of
                Inl err \<Rightarrow> (Some (FatalReadConfig (flag_config fl) err), st2)
              | Inr configBytes \<Rightarrow>
                  (case Unmarshal w configBytes of
                     Inl err \<Rightarrow> (Some (FatalParseConfig (flag_config fl) err), st2)
                   | Inr config \<Rightarrow>
                       (case newClient env of
                          None \<Rightarrow> (Some FatalNoCredentials, st2)
                        | Some c \<Rightarrow>
                            (case DoRelease w \<lparr>Client = c, Config = config\<rparr> buildDir st2 of
                               (Some err, st3) \<Rightarrow> (Some (FatalUnexpected err), st3)
                             | (None, st3) \<Rightarrow> (None, st3)))))))"

section \<open>What a run leaves in the registry\<close>

text \<open>
  The registry is not code of this repository. For the claim about a second run, this is
  what the claim supposes of it: every upload of a run is listed afterwards as an asset under
  the name it was uploaded with, at the size of the local file it was read from (\<open>fs\<close> is
  the file system: the answer of \<open>os.Stat\<close> for a path).
\<close>

fun uploadedAsset :: "(string \<Rightarrow> string + int64) \<Rightarrow> event \<Rightarrow> ReleaseAsset list" where
  "uploadedAsset fs (UploadReleaseAssetCall c ow rp i n p) =
     (case fs p of Inr sz \<Rightarrow> [\<lparr>AssetName = Some n, Size = Some sz\<rparr>] | Inl err \<Rightarrow> [])"
| "uploadedAsset fs e = []"

definition uploaded :: "(string \<Rightarrow> string + int64) \<Rightarrow> event list \<Rightarrow> ReleaseAsset list" where
  "uploaded fs es = concat (map (uploadedAsset fs) es)"

section \<open>A concrete run\<close>

text \<open>
  The end-to-end scenario of the specification: tag \<open>v1.0.0\<close>, no release yet, one
  required asset \<open>dist/bin\<close> of 1024 bytes, and a registry that accepts every call.
\<close>

definition sha40 :: string where
  "sha40 = ''0123456789abcdef0123456789abcdef01234567''"

definition demoMapping :: AssetMapping where
  "demoMapping = \<lparr>Source = ''dist/bin'', GithubName = ''bin-linux-amd64'', Optional = False\<rparr>"

definition demoConfig :: Config where
  "demoConfig = \<lparr>Owner = ''o'', Repo = ''r'', Assets = [demoMapping]\<rparr>"

definition demoWorld :: world where
  "demoWorld =
     \<lparr>Getwd = (\<lambda>h. Inr ''/build''),
      ReadFile = (\<lambda>h p. Inr ''owner: o''),
      Unmarshal = (\<lambda>bytes. Inr demoConfig),
      ListReleases = (\<lambda>h c ow rp. Inr []),
      RunGit = (\<lambda>h d tg. (None, sha40 @ [CHR 0x0A])),
      CreateRelease = (\<lambda>h c ow rp r. Inr (r\<lparr>ID := Some 7\<rparr>)),
      ListReleaseAssets = (\<lambda>h c ow rp i. Inr []),
      Stat = (\<lambda>h p. if p = ''dist/bin'' then Inr 1024 else Inl ''no such file or directory''),
      Open = (\<lambda>h p. Inr ()),
      UploadReleaseAsset = (\<lambda>h c ow rp i n p. Inr \<lparr>AssetName = Some n, Size = Some 1024\<rparr>)\<rparr>"

definition demoState :: state where
  "demoState = \<lparr>tag = ''v1.0.0'', target = [], trace = []\<rparr>"

definition demoShipbot :: Shipbot where
  "demoShipbot = \<lparr>Client = TokenClient ''t'', Config = demoConfig\<rparr>"

definition demoRelease :: RepositoryRelease where
  "demoRelease =
     \<lparr>ID = Some 7, TagName = Some ''v1.0.0'', TargetCommitish = Some sha40,
      Name = Some ''v1.0.0'', Body = Some ''Release v1.0.0 (draft)'', Draft = Some True\<rparr>"

definition demoFiles :: "string \<Rightarrow> string + int64" where
  "demoFiles p = (if p = ''dist/bin'' then Inr 1024 else Inl ''no such file or directory'')"

definition demoAsset :: "go_int option \<Rightarrow> ReleaseAsset" where
  "demoAsset sz = \<lparr>AssetName = Some ''bin-linux-amd64'', Size = sz\<rparr>"

definition demoUploaded :: state where
  "demoUploaded = \<lparr>tag = ''v1.0.0'', target = [],
     trace = [StatCall ''dist/bin'', OpenCall ''dist/bin'',
              UploadReleaseAssetCall (TokenClient ''t'') ''o'' ''r'' 7 ''bin-linux-amd64'' ''dist/bin'',
              CloseCall ''dist/bin'']\<rparr>"

definition demoOld :: RepositoryRelease where
  "demoOld =
     \<lparr>ID = Some 3, TagName = Some ''v0.9.0'', TargetCommitish = Some ''master'',
      Name = Some ''v0.9.0'', Body = None, Draft = Some False\<rparr>"

definition demoTagged :: "int64 \<Rightarrow> RepositoryRelease" where
  "demoTagged i =
     \<lparr>ID = Some i, TagName = Some ''v1.0.0'', TargetCommitish = Some ''master'',
      Name = Some ''v1.0.0'', Body = None, Draft = Some True\<rparr>"

definition demoFlags :: flags where
  "demoFlags = \<lparr>flag_tag = ''v1.0.0'', flag_target = [], flag_config = ''shipbot.yaml'',
     flag_builddir = None\<rparr>"

definition demoEnv :: "string \<Rightarrow> string \<Rightarrow> string \<Rightarrow> environ" where
  "demoEnv user password token =
     \<lparr>githubUser = user, githubPassword = password, githubAccessToken = token\<rparr>"

section \<open>Properties of strings.TrimSpace\<close>

lemma TrimLeftSpace_noprefix: "leadingSpace (TrimLeftSpace str) = None"
proof (induction str rule: TrimLeftSpace.induct)
  case (1 str)
  show ?case
  proof (cases "leadingSpace str")
    case None
    then show ?thesis by (subst TrimLeftSpace.simps) simp
  next
    case (Some e)
    with 1 show ?thesis by (subst TrimLeftSpace.simps) simp
  qed
qed

lemma TrimRightSpace_nosuffix: "trailingSpace (TrimRightSpace str) = None"
proof (induction str rule: TrimRightSpace.induct)
  case (1 str)
  show ?case
  proof (cases "trailingSpace str")
    case None
    then show ?thesis by (subst TrimRightSpace.simps) simp
  next
    case (Some e)
    with 1 show ?thesis by (subst TrimRightSpace.simps) simp
  qed
qed

lemma TrimRightSpace_prefix: "prefix (TrimRightSpace str) str"
proof (induction str rule: TrimRightSpace.induct)
  case (1 str)
  show ?case
  proof (cases "trailingSpace str")
    case None
    then show ?thesis by (subst TrimRightSpace.simps) simp
  next
    case (Some e)
    with 1 have "prefix (TrimRightSpace (take (length str - length e) str))
                   (take (length str - length e) str)"
      by simp
    then have "prefix (TrimRightSpace (take (length str - length e) str)) str"
      using take_is_prefix prefix_order.order_trans by blast
    with Some show ?thesis by (subst TrimRightSpace.simps) simp
  qed
qed

lemma leadingSpace_None_iff:
  "leadingSpace str = None \<longleftrightarrow> (\<forall>e\<in>set spaceRunes. \<not> prefix e str)"
  by (auto simp: leadingSpace_def find_None_iff)

lemma leadingSpace_prefix_None:
  "leadingSpace str = None \<Longrightarrow> prefix t str \<Longrightarrow> leadingSpace t = None"
  unfolding leadingSpace_None_iff using prefix_order.order_trans by blast

lemma TrimSpace_no_leading: "leadingSpace (TrimSpace str) = None"
  unfolding TrimSpace_def
  by (rule leadingSpace_prefix_None [OF TrimLeftSpace_noprefix TrimRightSpace_prefix])

lemma TrimSpace_no_trailing: "trailingSpace (TrimSpace str) = None"
  unfolding TrimSpace_def by (rule TrimRightSpace_nosuffix)

lemma TrimLeftSpace_id: "leadingSpace str = None \<Longrightarrow> TrimLeftSpace str = str"
  by (subst TrimLeftSpace.simps) simp

lemma TrimRightSpace_id: "trailingSpace str = None \<Longrightarrow> TrimRightSpace str = str"
  by (subst TrimRightSpace.simps) simp

lemma spaceRunes_length: "e \<in> set spaceRunes \<Longrightarrow> length e \<le> 3"
  by (auto simp: spaceRunes_def)

lemma leadingSpace_append:
  assumes "leadingSpace str = None" "3 \<le> length str"
  shows "leadingSpace (str @ t) = None"
proof -
  have "\<not> prefix e (str @ t)" if e: "e \<in> set spaceRunes" for e
  proof
    assume p: "prefix e (str @ t)"
    have "length e \<le> length str" using spaceRunes_length [OF e] assms(2) by simp
    with p have "prefix e str"
      by (metis prefix_length_prefix prefixI)
    with assms(1) e show False by (simp add: leadingSpace_None_iff)
  qed
  then show ?thesis by (simp add: leadingSpace_None_iff)
qed

lemma trailingSpace_newline: "trailingSpace (str @ [CHR 0x0A]) = Some [CHR 0x0A]"
  by (simp add: trailingSpace_def spaceRunes_def suffix_def)

lemma TrimSpace_newline:
  assumes "leadingSpace str = None" "trailingSpace str = None" "3 \<le> length str"
  shows "TrimSpace (str @ [CHR 0x0A]) = str"
proof -
  have "TrimLeftSpace (str @ [CHR 0x0A]) = str @ [CHR 0x0A]"
    by (rule TrimLeftSpace_id [OF leadingSpace_append [OF assms(1,3)]])
  moreover have "TrimRightSpace (str @ [CHR 0x0A]) = TrimRightSpace str"
    by (subst TrimRightSpace.simps) (simp add: trailingSpace_newline)
  ultimately show ?thesis
    by (simp add: TrimSpace_def TrimRightSpace_id [OF assms(2)])
qed

lemma TrimSpace_Nil: "TrimSpace [] = []"
  by (simp add: TrimSpace_def TrimLeftSpace_id TrimRightSpace_id leadingSpace_def
      trailingSpace_def spaceRunes_def)

lemma sha40_clean:
  "length sha40 = 40 \<and> leadingSpace sha40 = None \<and> trailingSpace sha40 = None"
  by (simp add: sha40_def leadingSpace_def trailingSpace_def spaceRunes_def suffix_def)

lemma TrimSpace_sha40_newline: "TrimSpace (sha40 @ [CHR 0x0A]) = sha40"
  using TrimSpace_newline [of sha40] sha40_clean by simp

lemma TrimSpace_id:
  "leadingSpace str = None \<Longrightarrow> trailingSpace str = None \<Longrightarrow> TrimSpace str = str"
  by (simp add: TrimSpace_def TrimLeftSpace_id TrimRightSpace_id)

lemma sha41_clean:
  "length (sha40 @ ''0'') = 41 \<and> leadingSpace (sha40 @ ''0'') = None \<and>
   trailingSpace (sha40 @ ''0'') = None"
  by (simp add: sha40_def leadingSpace_def trailingSpace_def spaceRunes_def suffix_def)

section \<open>Properties of findCommitSha\<close>

lemma findCommitSha_state: "snd (findCommitSha w d tg st) = emit (GitRevListCall d tg) st"
  by (simp add: findCommitSha_def Let_def split: prod.splits option.splits)

text \<open>
  C6, as the code has it. The length that is checked is the length of the output after
  \<open>strings.TrimSpace\<close>: when the subprocess exits with code 0 and its trimmed output is
  not 40 bytes long, \<open>findCommitSha\<close> returns the error "git sha had unexpected length"
  (the ResolutionError), after the one subprocess call. The empty output is such an output,
  and so is every output of another length than 40 (of 41 bytes, say) that neither starts
  nor ends with white space.
\<close>

theorem findCommitSha_length_checked:
  assumes "RunGit w (trace st) d tg = (None, out)"
  shows "(length (TrimSpace out) \<noteq> 40 \<longrightarrow>
            findCommitSha w d tg st =
              (Inl (ErrShaLength (TrimSpace out)), emit (GitRevListCall d tg) st)) \<and>
         (out = [] \<longrightarrow> fst (findCommitSha w d tg st) = Inl (ErrShaLength [])) \<and>
         (leadingSpace out = None \<and> trailingSpace out = None \<and> length out \<noteq> 40 \<longrightarrow>
            fst (findCommitSha w d tg st) = Inl (ErrShaLength out))"
  using assms by (auto simp: findCommitSha_def TrimSpace_Nil TrimSpace_id)

theorem findCommitSha_length_checked_witness:
  "findCommitSha (demoWorld\<lparr>RunGit := (\<lambda>h d tg. (None, []))\<rparr>) ''/build'' ''v1.0.0'' demoState
     = (Inl (ErrShaLength []), emit (GitRevListCall ''/build'' ''v1.0.0'') demoState) \<and>
   length (sha40 @ ''0'') = 41 \<and>
   fst (findCommitSha (demoWorld\<lparr>RunGit := (\<lambda>h d tg. (None, sha40 @ ''0''))\<rparr>)
          ''/build'' ''v1.0.0'' demoState)
     = Inl (ErrShaLength (sha40 @ ''0''))"
proof -
  have a: "RunGit (demoWorld\<lparr>RunGit := (\<lambda>h d tg. (None, []))\<rparr>) (trace demoState)
             ''/build'' ''v1.0.0'' = (None, [])"
    by simp
  have b: "RunGit (demoWorld\<lparr>RunGit := (\<lambda>h d tg. (None, sha40 @ ''0''))\<rparr>) (trace demoState)
             ''/build'' ''v1.0.0'' = (None, sha40 @ ''0'')"
    by simp
  from findCommitSha_length_checked [OF a] findCommitSha_length_checked [OF b] sha41_clean
  show ?thesis by (simp add: TrimSpace_Nil)
qed

text \<open>
  C6 as stated fails: the 41 bytes that \<open>git rev-list\<close> writes for a commit (40 hexadecimal
  digits and a line feed) are not 40 bytes long, and are accepted.
\<close>

theorem findCommitSha_counterexample:
  "RunGit demoWorld (trace demoState) ''/build'' ''v1.0.0'' = (None, sha40 @ [CHR 0x0A]) \<and>
   length (sha40 @ [CHR 0x0A]) = 41 \<and>
   fst (findCommitSha demoWorld ''/build'' ''v1.0.0'' demoState) = Inr sha40"
  using TrimSpace_sha40_newline sha40_clean
  by (simp add: findCommitSha_def demoWorld_def)

text \<open>
  C10. \<open>findCommitSha\<close> trims before it checks the length: a 40-byte sha with no white
  space at either end, followed by a line feed, is accepted and returned without the line
  feed; and every commit id it returns is the trimmed output of the subprocess, is 40 bytes
  long, and neither starts nor ends with white space.
\<close>

theorem findCommitSha_trims:
  "(RunGit w (trace st) d tg = (None, sha @ [CHR 0x0A]) \<and> length sha = 40 \<and>
      leadingSpace sha = None \<and> trailingSpace sha = None
      \<longrightarrow> fst (findCommitSha w d tg st) = Inr sha) \<and>
   (fst (findCommitSha w d tg st) = Inr r
      \<longrightarrow> r = TrimSpace (snd (RunGit w (trace st) d tg)) \<and> length r = 40 \<and>
          leadingSpace r = None \<and> trailingSpace r = None)"
proof (intro conjI impI)
  assume a: "RunGit w (trace st) d tg = (None, sha @ [CHR 0x0A]) \<and> length sha = 40 \<and>
      leadingSpace sha = None \<and> trailingSpace sha = None"
  then have "TrimSpace (sha @ [CHR 0x0A]) = sha"
    by (intro TrimSpace_newline) simp_all
  with a show "fst (findCommitSha w d tg st) = Inr sha"
    by (simp add: findCommitSha_def)
next
  assume r: "fst (findCommitSha w d tg st) = Inr r"
  then show "r = TrimSpace (snd (RunGit w (trace st) d tg))"
    by (auto simp: findCommitSha_def Let_def split: prod.splits option.splits if_splits)
  then show "leadingSpace r = None" "trailingSpace r = None"
    by (simp_all add: TrimSpace_no_leading TrimSpace_no_trailing)
  from r show "length r = 40"
    by (auto simp: findCommitSha_def Let_def split: prod.splits option.splits if_splits)
qed

theorem findCommitSha_trims_witness:
  "RunGit demoWorld (trace demoState) ''/build'' ''v1.0.0'' = (None, sha40 @ [CHR 0x0A]) \<and>
   length sha40 = 40 \<and> leadingSpace sha40 = None \<and> trailingSpace sha40 = None \<and>
   fst (findCommitSha demoWorld ''/build'' ''v1.0.0'' demoState) = Inr sha40 \<and>
   sha40 = TrimSpace (snd (RunGit demoWorld (trace demoState) ''/build'' ''v1.0.0''))"
proof -
  have g: "RunGit demoWorld (trace demoState) ''/build'' ''v1.0.0'' = (None, sha40 @ [CHR 0x0A])"
    by (simp add: demoWorld_def)
  from findCommitSha_trims [of demoWorld demoState "''/build''" "''v1.0.0''" sha40 sha40]
    g sha40_clean
  show ?thesis by simp
qed

section \<open>Properties of syncAsset\<close>

lemma trace_emit: "trace (emit e st) = trace st @ [e]"
  by (simp add: emit_def)

lemma demoStat: "Stat demoWorld h p = demoFiles p"
  by (simp add: demoWorld_def demoFiles_def)

text \<open>
  C3. When the local file exists (\<open>os.Stat\<close> succeeds) and an asset of the mapping's
  \<open>githubName\<close> is among the release's assets, \<open>syncAsset\<close> only compares the sizes: it
  fails with "asset size did not match" (the AssetConflictError) when the recorded size
  differs from the file's size and returns nil when they are equal. In both cases the only
  call it makes is the \<open>os.Stat\<close>: nothing is uploaded.
\<close>

theorem syncAsset_existing:
  assumes "Stat w (trace st) (Source m) = Inr srcSize"
    and "assets (GithubName m) = Some existing"
  shows "syncAsset w sb release m assets st =
           (if to_int64 (iv (Size existing)) = srcSize then None
            else Some (ErrSizeMismatch (GithubName m)),
            emit (StatCall (Source m)) st) \<and>
         filter is_upload (trace (snd (syncAsset w sb release m assets st)))
           = filter is_upload (trace st)"
  using assms by (simp add: syncAsset_def trace_emit)

theorem syncAsset_existing_witness:
  "syncAsset demoWorld demoShipbot demoRelease demoMapping
     [''bin-linux-amd64'' \<mapsto> demoAsset (Some 2048)] demoState
     = (Some (ErrSizeMismatch ''bin-linux-amd64''), emit (StatCall ''dist/bin'') demoState) \<and>
   syncAsset demoWorld demoShipbot demoRelease demoMapping
     [''bin-linux-amd64'' \<mapsto> demoAsset (Some 1024)] demoState
     = (None, emit (StatCall ''dist/bin'') demoState) \<and>
   filter is_upload (trace (snd (syncAsset demoWorld demoShipbot demoRelease demoMapping
     [''bin-linux-amd64'' \<mapsto> demoAsset (Some 2048)] demoState))) = []"
  using syncAsset_existing [where w = demoWorld and st = demoState and m = demoMapping
      and srcSize = 1024 and assets = "[''bin-linux-amd64'' \<mapsto> demoAsset (Some 2048)]"
      and existing = "demoAsset (Some 2048)" and sb = demoShipbot and release = demoRelease]
    syncAsset_existing [where w = demoWorld and st = demoState and m = demoMapping
      and srcSize = 1024 and assets = "[''bin-linux-amd64'' \<mapsto> demoAsset (Some 1024)]"
      and existing = "demoAsset (Some 1024)" and sb = demoShipbot and release = demoRelease]
  by (simp add: demoStat demoFiles_def demoMapping_def demoAsset_def demoState_def
      to_int64_def iv_def emit_def)

text \<open>
  C9. An existing asset whose \<open>Size\<close> is nil counts as an asset of size 0 (\<open>iv\<close>):
  \<open>syncAsset\<close> returns nil without an upload exactly when the local file has 0 bytes, and
  fails with the size mismatch otherwise.
\<close>

theorem syncAsset_nil_size:
  assumes "Stat w (trace st) (Source m) = Inr srcSize"
    and "assets (GithubName m) = Some existing"
    and "Size existing = None"
  shows "syncAsset w sb release m assets st =
           (if srcSize = 0 then None else Some (ErrSizeMismatch (GithubName m)),
            emit (StatCall (Source m)) st) \<and>
         filter is_upload (trace (snd (syncAsset w sb release m assets st)))
           = filter is_upload (trace st)"
  using assms by (auto simp: syncAsset_def trace_emit iv_def to_int64_def)

theorem syncAsset_nil_size_witness:
  "syncAsset demoWorld demoShipbot demoRelease demoMapping
     [''bin-linux-amd64'' \<mapsto> demoAsset None] demoState
     = (Some (ErrSizeMismatch ''bin-linux-amd64''), emit (StatCall ''dist/bin'') demoState) \<and>
   syncAsset (demoWorld\<lparr>Stat := (\<lambda>h p. Inr 0)\<rparr>) demoShipbot demoRelease demoMapping
     [''bin-linux-amd64'' \<mapsto> demoAsset None] demoState
     = (None, emit (StatCall ''dist/bin'') demoState)"
  using syncAsset_nil_size [where w = demoWorld and st = demoState and m = demoMapping
      and srcSize = 1024 and assets = "[''bin-linux-amd64'' \<mapsto> demoAsset None]"
      and existing = "demoAsset None" and sb = demoShipbot and release = demoRelease]
    syncAsset_nil_size [where w = "demoWorld\<lparr>Stat := (\<lambda>h p. Inr 0)\<rparr>" and st = demoState
      and m = demoMapping
      and srcSize = 0 and assets = "[''bin-linux-amd64'' \<mapsto> demoAsset None]"
      and existing = "demoAsset None" and sb = demoShipbot and release = demoRelease]
  by (simp add: demoStat demoFiles_def demoMapping_def demoAsset_def demoState_def)

text \<open>
  C8. Whatever error \<open>os.Stat\<close> returns for the source path (not only "no such file"),
  \<open>syncAsset\<close> treats the source as missing: an optional mapping returns nil, a required
  one the "error doing stat" error, and in both cases no registry call is made.
\<close>

theorem syncAsset_stat_error:
  assumes "Stat w (trace st) (Source m) = Inl err"
  shows "syncAsset w sb release m assets st =
           (if Optional m then None else Some (ErrStat (Source m) err),
            emit (StatCall (Source m)) st) \<and>
         filter is_network (trace (snd (syncAsset w sb release m assets st)))
           = filter is_network (trace st)"
  using assms by (simp add: syncAsset_def trace_emit)

theorem syncAsset_stat_error_witness:
  "syncAsset (demoWorld\<lparr>Stat := (\<lambda>h p. Inl ''permission denied'')\<rparr>) demoShipbot demoRelease
     demoMapping Map.empty demoState
     = (Some (ErrStat ''dist/bin'' ''permission denied''), emit (StatCall ''dist/bin'') demoState) \<and>
   syncAsset (demoWorld\<lparr>Stat := (\<lambda>h p. Inl ''permission denied'')\<rparr>) demoShipbot demoRelease
     (demoMapping\<lparr>Optional := True\<rparr>) Map.empty demoState
     = (None, emit (StatCall ''dist/bin'') demoState) \<and>
   filter is_network (trace (snd (syncAsset
     (demoWorld\<lparr>Stat := (\<lambda>h p. Inl ''permission denied'')\<rparr>) demoShipbot demoRelease
     (demoMapping\<lparr>Optional := True\<rparr>) Map.empty demoState))) = []"
  using syncAsset_stat_error [where w = "demoWorld\<lparr>Stat := (\<lambda>h p. Inl ''permission denied'')\<rparr>"
      and st = demoState and m = demoMapping and err = "''permission denied''"
      and assets = Map.empty and sb = demoShipbot and release = demoRelease]
    syncAsset_stat_error [where w = "demoWorld\<lparr>Stat := (\<lambda>h p. Inl ''permission denied'')\<rparr>"
      and st = demoState and m = "demoMapping\<lparr>Optional := True\<rparr>" and err = "''permission denied''"
      and assets = Map.empty and sb = demoShipbot and release = demoRelease]
  by (simp add: demoMapping_def demoState_def emit_def)

section \<open>Properties of the loop over the mappings\<close>

lemma syncAssets_append:
  "syncAssets w sb found (xs @ ys) assets st =
     (case syncAssets w sb found xs assets st of
        (Some err, st1) \<Rightarrow> (Some err, st1)
      | (None, st1) \<Rightarrow> syncAssets w sb found ys assets st1)"
  by (induction xs arbitrary: st) (auto split: prod.splits option.splits)

lemma demo_first_run:
  "syncAssets demoWorld demoShipbot demoRelease [demoMapping] Map.empty demoState
     = (None, demoUploaded)"
  by (simp add: syncAsset_def demoWorld_def demoShipbot_def demoRelease_def demoMapping_def
      demoConfig_def demoState_def demoUploaded_def emit_def i64v_def)

text \<open>
  C5. A required mapping (\<open>optional = false\<close>) whose source cannot be stat'ed makes
  \<open>syncAsset\<close> fail with "error doing stat" (the SourceNotFoundError) after the
  \<open>os.Stat\<close> alone, with no network call; and when the mappings before it went through,
  the loop returns that error in that state, whatever mappings come after it: none of them
  is looked at.
\<close>

theorem syncAssets_required_missing:
  assumes "syncAssets w sb found pre assets st = (None, st1)"
    and "Stat w (trace st1) (Source m) = Inl err"
    and "\<not> Optional m"
  shows "syncAsset w sb found m assets st1 =
           (Some (ErrStat (Source m) err), emit (StatCall (Source m)) st1) \<and>
         filter is_network (trace (emit (StatCall (Source m)) st1))
           = filter is_network (trace st1) \<and>
         syncAssets w sb found (pre @ m # post) assets st =
           (Some (ErrStat (Source m) err), emit (StatCall (Source m)) st1)"
  using assms by (simp add: syncAssets_append syncAsset_def trace_emit)

theorem syncAssets_required_missing_witness:
  "syncAssets demoWorld demoShipbot demoRelease [demoMapping] Map.empty demoState
     = (None, demoUploaded) \<and>
   syncAsset demoWorld demoShipbot demoRelease
     \<lparr>Source = ''dist/doc'', GithubName = ''doc'', Optional = False\<rparr> Map.empty demoUploaded
     = (Some (ErrStat ''dist/doc'' ''no such file or directory''),
        emit (StatCall ''dist/doc'') demoUploaded) \<and>
   syncAssets demoWorld demoShipbot demoRelease
     ([demoMapping] @ \<lparr>Source = ''dist/doc'', GithubName = ''doc'', Optional = False\<rparr>
        # [demoMapping\<lparr>GithubName := ''again''\<rparr>]) Map.empty demoState
     = (Some (ErrStat ''dist/doc'' ''no such file or directory''),
        emit (StatCall ''dist/doc'') demoUploaded)"
proof -
  have s: "Stat demoWorld (trace demoUploaded)
             (Source \<lparr>Source = ''dist/doc'', GithubName = ''doc'', Optional = False\<rparr>)
           = Inl ''no such file or directory''"
    by (simp add: demoStat demoFiles_def)
  have o: "\<not> Optional \<lparr>Source = ''dist/doc'', GithubName = ''doc'', Optional = False\<rparr>"
    by simp
  note t = syncAssets_required_missing [OF demo_first_run s o,
      of "[demoMapping\<lparr>GithubName := ''again''\<rparr>]", unfolded AssetMapping.select_convs]
  show ?thesis
    using t demo_first_run by blast
qed

lemma buildAssetMap_present:
  "buildAssetMap as amap k \<noteq> None \<longleftrightarrow>
     amap k \<noteq> None \<or> (\<exists>a\<in>set as. sv (AssetName a) = k)"
  by (induction as arbitrary: amap) auto

lemma syncAsset_events:
  "\<exists>es. trace (snd (syncAsset w sb release m assets st)) = trace st @ es \<and>
     (fst (syncAsset w sb release m assets st) = None \<longrightarrow>
        (\<forall>sz. Stat w (trace st) (Source m) = Inr sz \<longrightarrow> assets (GithubName m) = None \<longrightarrow>
          UploadReleaseAssetCall (Client sb) (Owner (Config sb)) (Repo (Config sb))
            (i64v (ID release)) (GithubName m) (Source m) \<in> set es))"
  by (auto simp: syncAsset_def Let_def trace_emit split: sum.splits option.splits)

lemma syncAssets_events:
  assumes "\<forall>h p. Stat w h p = fs p"
    and "syncAssets w sb found ms assets st = (None, st')"
  shows "\<exists>es. trace st' = trace st @ es \<and>
     (\<forall>m\<in>set ms. \<forall>sz. fs (Source m) = Inr sz \<longrightarrow> assets (GithubName m) = None \<longrightarrow>
        UploadReleaseAssetCall (Client sb) (Owner (Config sb)) (Repo (Config sb))
          (i64v (ID found)) (GithubName m) (Source m) \<in> set es)"
  using assms(2)
proof (induction ms arbitrary: st)
  case Nil
  then show ?case by simp
next
  case (Cons m ms)
  obtain r st1 where r: "syncAsset w sb found m assets st = (r, st1)"
    by (cases "syncAsset w sb found m assets st")
  with Cons.prems have rn: "r = None" and rest: "syncAssets w sb found ms assets st1 = (None, st')"
    by (auto split: option.splits)
  from syncAsset_events [of w sb found m assets st] r rn assms(1)
  obtain es1 where es1: "trace st1 = trace st @ es1"
    "\<forall>sz. fs (Source m) = Inr sz \<longrightarrow> assets (GithubName m) = None \<longrightarrow>
          UploadReleaseAssetCall (Client sb) (Owner (Config sb)) (Repo (Config sb))
            (i64v (ID found)) (GithubName m) (Source m) \<in> set es1"
    by auto
  from Cons.IH [OF rest] obtain es2 where es2: "trace st' = trace st1 @ es2"
    "\<forall>m\<in>set ms. \<forall>sz. fs (Source m) = Inr sz \<longrightarrow> assets (GithubName m) = None \<longrightarrow>
        UploadReleaseAssetCall (Client sb) (Owner (Config sb)) (Repo (Config sb))
          (i64v (ID found)) (GithubName m) (Source m) \<in> set es2"
    by blast
  have "trace st' = trace st @ (es1 @ es2)" using es1(1) es2(1) by simp
  moreover have "\<forall>m'\<in>set (m # ms). \<forall>sz. fs (Source m') = Inr sz \<longrightarrow> assets (GithubName m') = None \<longrightarrow>
        UploadReleaseAssetCall (Client sb) (Owner (Config sb)) (Repo (Config sb))
          (i64v (ID found)) (GithubName m') (Source m') \<in> set (es1 @ es2)"
    using es1(2) es2(2) by auto
  ultimately show ?case by blast
qed

lemma syncAsset_no_upload:
  assumes "\<forall>sz. Stat w (trace st) (Source m) = Inr sz \<longrightarrow> assets (GithubName m) \<noteq> None"
  shows "filter is_upload (trace (snd (syncAsset w sb release m assets st)))
           = filter is_upload (trace st)"
  using assms by (auto simp: syncAsset_def Let_def trace_emit split: sum.splits option.splits)

lemma syncAssets_no_upload:
  assumes "\<forall>h p. Stat w h p = fs p"
    and "\<forall>m\<in>set ms. \<forall>sz. fs (Source m) = Inr sz \<longrightarrow> assets (GithubName m) \<noteq> None"
  shows "filter is_upload (trace (snd (syncAssets w sb found ms assets st)))
           = filter is_upload (trace st)"
  using assms(2)
proof (induction ms arbitrary: st)
  case Nil
  then show ?case by simp
next
  case (Cons m ms)
  have one: "filter is_upload (trace (snd (syncAsset w sb found m assets st)))
           = filter is_upload (trace st)"
    by (rule syncAsset_no_upload) (use Cons.prems assms(1) in auto)
  obtain r st1 where r: "syncAsset w sb found m assets st = (r, st1)"
    by (cases "syncAsset w sb found m assets st")
  show ?case
  proof (cases r)
    case None
    with r one Cons.IH [of st1] Cons.prems show ?thesis by simp
  next
    case (Some err)
    with r one show ?thesis by simp
  qed
qed

lemma uploaded_mem:
  "UploadReleaseAssetCall c ow rp i n p \<in> set es \<Longrightarrow> fs p = Inr sz \<Longrightarrow>
     \<lparr>AssetName = Some n, Size = Some sz\<rparr> \<in> set (uploaded fs es)"
  unfolding uploaded_def by (induction es) auto

text \<open>
  C4. Idempotence. Let a first run of the loop succeed, from the assets \<open>assets1\<close> the
  registry listed. Let the local files be the same in both runs (\<open>os.Stat\<close> answers as
  \<open>fs\<close> throughout), and let the registry list, for the second run, the assets it listed
  before followed by one asset for every upload of the first run, under the uploaded name
  and at the size of the local file. Then the second run over the same mappings makes no
  upload call.
\<close>

theorem syncAssets_idempotent:
  assumes "\<forall>h p. Stat w1 h p = fs p" and "\<forall>h p. Stat w2 h p = fs p"
    and "syncAssets w1 sb found ms (buildAssetMap assets1 Map.empty) st1 = (None, st1')"
    and "assets2 = assets1 @ uploaded fs (drop (length (trace st1)) (trace st1'))"
  shows "filter is_upload
           (trace (snd (syncAssets w2 sb found ms (buildAssetMap assets2 Map.empty) st2)))
         = filter is_upload (trace st2)"
proof (rule syncAssets_no_upload [OF assms(2)], intro ballI allI impI)
  fix m sz
  assume m: "m \<in> set ms" and sz: "fs (Source m) = Inr sz"
  from syncAssets_events [OF assms(1,3)] obtain es where es: "trace st1' = trace st1 @ es"
    "\<forall>m\<in>set ms. \<forall>sz. fs (Source m) = Inr sz \<longrightarrow>
        buildAssetMap assets1 Map.empty (GithubName m) = None \<longrightarrow>
        UploadReleaseAssetCall (Client sb) (Owner (Config sb)) (Repo (Config sb))
          (i64v (ID found)) (GithubName m) (Source m) \<in> set es"
    by blast
  have a2: "assets2 = assets1 @ uploaded fs es" using assms(4) es(1) by simp
  show "buildAssetMap assets2 Map.empty (GithubName m) \<noteq> None"
  proof (cases "buildAssetMap assets1 Map.empty (GithubName m)")
    case (Some a)
    then have "\<exists>a\<in>set assets1. sv (AssetName a) = GithubName m"
      using buildAssetMap_present [of assets1 Map.empty "GithubName m"] by simp
    then show ?thesis
      unfolding buildAssetMap_present a2 by auto
  next
    case None
    with es(2) m sz have "UploadReleaseAssetCall (Client sb) (Owner (Config sb)) (Repo (Config sb))
          (i64v (ID found)) (GithubName m) (Source m) \<in> set es" by blast
    from uploaded_mem [of _ _ _ _ "GithubName m" "Source m" es fs sz, OF this sz]
    have "\<exists>a\<in>set (uploaded fs es). sv (AssetName a) = GithubName m"
      by (force simp: sv_def)
    then show ?thesis
      unfolding buildAssetMap_present a2 by auto
  qed
qed

theorem syncAssets_idempotent_witness:
  "syncAssets demoWorld demoShipbot demoRelease [demoMapping] (buildAssetMap [] Map.empty) demoState
     = (None, demoUploaded) \<and>
   [] @ uploaded demoFiles (drop (length (trace demoState)) (trace demoUploaded))
     = [demoAsset (Some 1024)] \<and>
   filter is_upload (trace (snd (syncAssets demoWorld demoShipbot demoRelease [demoMapping]
      (buildAssetMap [demoAsset (Some 1024)] Map.empty) demoState)))
     = filter is_upload (trace demoState) \<and>
   filter is_upload (trace demoState) = []"
proof -
  have up: "[] @ uploaded demoFiles (drop (length (trace demoState)) (trace demoUploaded))
     = [demoAsset (Some 1024)]"
    by (simp add: uploaded_def demoFiles_def demoState_def demoUploaded_def demoAsset_def)
  have run1: "syncAssets demoWorld demoShipbot demoRelease [demoMapping]
      (buildAssetMap [] Map.empty) demoState = (None, demoUploaded)"
    using demo_first_run by simp
  have "filter is_upload (trace (snd (syncAssets demoWorld demoShipbot demoRelease [demoMapping]
      (buildAssetMap [demoAsset (Some 1024)] Map.empty) demoState)))
     = filter is_upload (trace demoState)"
    by (rule syncAssets_idempotent [where ?w1.0 = demoWorld and fs = demoFiles
          and ?assets1.0 = "[]" and ?st1.0 = demoState and ?st1' = demoUploaded,
          OF _ _ run1 up [symmetric]])
       (simp_all add: demoStat)
  with up run1 show ?thesis by (simp add: demoState_def)
qed

section \<open>Properties of DoRelease\<close>

lemma findRelease_filter:
  "findRelease tg releases found =
     (if filter (\<lambda>r. sv (TagName r) = tg) releases = [] then found
      else Some (last (filter (\<lambda>r. sv (TagName r) = tg) releases)))"
  by (induction releases arbitrary: found) auto

lemma syncAsset_no_create:
  "filter is_create (trace (snd (syncAsset w sb release m assets st)))
     = filter is_create (trace st)"
  by (auto simp: syncAsset_def Let_def trace_emit split: sum.splits option.splits)

lemma syncAssets_no_create:
  "filter is_create (trace (snd (syncAssets w sb found ms assets st)))
     = filter is_create (trace st)"
proof (induction ms arbitrary: st)
  case Nil
  show ?case by simp
next
  case (Cons m ms)
  obtain r st1 where r: "syncAsset w sb found m assets st = (r, st1)"
    by (cases "syncAsset w sb found m assets st")
  then have "filter is_create (trace st1) = filter is_create (trace st)"
    using syncAsset_no_create [of w sb found m assets st] by simp
  with r Cons.IH [of st1] show ?case
    by (cases r) simp_all
qed

lemma releaseAssets_no_create:
  "filter is_create (trace (snd (releaseAssets w sb found st)))
     = filter is_create (trace st)"
  by (simp add: releaseAssets_def Let_def syncAssets_no_create trace_emit split: sum.splits)

lemma tag_emit: "tag (emit e st) = tag st"
  by (simp add: emit_def)

lemma target_emit: "target (emit e st) = target st"
  by (simp add: emit_def)

text \<open>
  C2. When the listing succeeds and some listed release has the tag (\<open>sv\<close> of its
  \<open>TagName\<close> equals \<open>tag\<close>), \<open>DoRelease\<close> goes on (lines 162 to 181) with the last
  release of the list that has the tag, and its whole run makes no \<open>CreateRelease\<close> call.
\<close>

theorem DoRelease_found:
  assumes "ListReleases w (trace st) (Client sb) (Owner (Config sb)) (Repo (Config sb))
             = Inr releases"
    and "\<exists>r\<in>set releases. sv (TagName r) = tag st"
  shows "DoRelease w sb buildDir st =
           releaseAssets w sb (last (filter (\<lambda>r. sv (TagName r) = tag st) releases))
             (emit (ListReleasesCall (Client sb) (Owner (Config sb)) (Repo (Config sb))) st) \<and>
         filter is_create (trace (snd (DoRelease w sb buildDir st)))
           = filter is_create (trace st)"
proof -
  from assms(2) have ne: "filter (\<lambda>r. sv (TagName r) = tag st) releases \<noteq> []"
    by (auto simp: filter_empty_conv)
  have eq: "DoRelease w sb buildDir st =
           releaseAssets w sb (last (filter (\<lambda>r. sv (TagName r) = tag st) releases))
             (emit (ListReleasesCall (Client sb) (Owner (Config sb)) (Repo (Config sb))) st)"
    using assms(1) ne
    by (simp add: DoRelease_def Let_def tag_emit findRelease_filter ensureRelease_def)
  show ?thesis
    unfolding eq by (simp add: releaseAssets_no_create trace_emit)
qed

theorem DoRelease_found_witness:
  "DoRelease (demoWorld\<lparr>ListReleases :=
       (\<lambda>h c ow rp. Inr [demoTagged 5, demoOld, demoTagged 9, demoOld])\<rparr>)
     demoShipbot ''/build'' demoState
   = releaseAssets (demoWorld\<lparr>ListReleases :=
         (\<lambda>h c ow rp. Inr [demoTagged 5, demoOld, demoTagged 9, demoOld])\<rparr>)
       demoShipbot (demoTagged 9)
       (emit (ListReleasesCall (TokenClient ''t'') ''o'' ''r'') demoState) \<and>
   filter is_create (trace (snd (DoRelease (demoWorld\<lparr>ListReleases :=
       (\<lambda>h c ow rp. Inr [demoTagged 5, demoOld, demoTagged 9, demoOld])\<rparr>)
     demoShipbot ''/build'' demoState))) = []"
proof -
  let ?w = "demoWorld\<lparr>ListReleases :=
       (\<lambda>h c ow rp. Inr [demoTagged 5, demoOld, demoTagged 9, demoOld])\<rparr>"
  have l: "ListReleases ?w (trace demoState) (Client demoShipbot) (Owner (Config demoShipbot))
             (Repo (Config demoShipbot)) = Inr [demoTagged 5, demoOld, demoTagged 9, demoOld]"
    by simp
  have t: "\<exists>r\<in>set [demoTagged 5, demoOld, demoTagged 9, demoOld]. sv (TagName r) = tag demoState"
    by (simp add: demoTagged_def demoState_def sv_def)
  have f: "last (filter (\<lambda>r. sv (TagName r) = tag demoState)
             [demoTagged 5, demoOld, demoTagged 9, demoOld]) = demoTagged 9"
    by (simp add: demoTagged_def demoOld_def demoState_def sv_def)
  from DoRelease_found [OF l t, of "''/build''"]
  show ?thesis
    unfolding f
    by (simp add: demoState_def demoShipbot_def demoConfig_def releaseAssets_no_create
        trace_emit)
qed

text \<open>
  C1. When the listing succeeds, no listed release has the tag, and the target is given or
  the commit of the tag is resolved (\<open>findCommitSha\<close> returns \<open>sha\<close>), the run of
  \<open>DoRelease\<close> makes exactly one \<open>CreateRelease\<close> call, for the release whose \<open>TagName\<close>
  and \<open>Name\<close> are the tag, whose \<open>Body\<close> is "Release " + tag + " (draft)", whose \<open>Draft\<close>
  is true and whose \<open>TargetCommitish\<close> is the given target when that is not empty and the
  resolved commit otherwise. No other creation call is in the trace of the run.
\<close>

theorem DoRelease_creates_once:
  assumes "ListReleases w (trace st) (Client sb) (Owner (Config sb)) (Repo (Config sb))
             = Inr releases"
    and "\<forall>r\<in>set releases. sv (TagName r) \<noteq> tag st"
    and "target st = [] \<longrightarrow>
           fst (findCommitSha w buildDir (tag st)
                  (emit (ListReleasesCall (Client sb) (Owner (Config sb)) (Repo (Config sb))) st))
             = Inr sha"
  shows "filter is_create (trace (snd (DoRelease w sb buildDir st))) =
           filter is_create (trace st) @
           [CreateReleaseCall (Client sb) (Owner (Config sb)) (Repo (Config sb))
              \<lparr>ID = None,
               TagName = Some (tag st),
               TargetCommitish = Some (if target st = [] then sha else target st),
               Name = Some (tag st),
               Body = Some (''Release '' @ tag st @ '' (draft)''),
               Draft = Some True\<rparr>]"
proof -
  let ?st1 = "emit (ListReleasesCall (Client sb) (Owner (Config sb)) (Repo (Config sb))) st"
  from assms(2) have no: "findRelease (tag st) releases None = None"
    by (simp add: findRelease_filter filter_empty_conv)
  obtain st2 where rt: "resolveTarget w buildDir ?st1 = (None, st2)"
    and st2: "tag st2 = tag st" "target st2 = (if target st = [] then sha else target st)"
      "filter is_create (trace st2) = filter is_create (trace st)"
  proof (cases "target st = []")
    case True
    with assms(3) obtain s where "findCommitSha w buildDir (tag st) ?st1 = (Inr sha, s)"
      by (cases "findCommitSha w buildDir (tag st) ?st1") auto
    moreover from this have "s = emit (GitRevListCall buildDir (tag st)) ?st1"
      using findCommitSha_state [of w buildDir "tag st" ?st1] by simp
    ultimately show ?thesis
      using True that [of "s\<lparr>target := sha\<rparr>"]
      by (simp add: resolveTarget_def tag_emit target_emit trace_emit)
  next
    case False
    then show ?thesis
      using that [of ?st1]
      by (simp add: resolveTarget_def tag_emit target_emit trace_emit)
  qed
  show ?thesis
    using assms(1) no rt st2
    by (auto simp: DoRelease_def Let_def tag_emit ensureRelease_def newRelease_def s_ptr_def
        b_ptr_def trace_emit releaseAssets_no_create split: sum.splits)
qed

theorem DoRelease_creates_once_witness:
  "filter is_create (trace (snd (DoRelease
      (demoWorld\<lparr>ListReleases := (\<lambda>h c ow rp. Inr [demoOld])\<rparr>) demoShipbot ''/build'' demoState)))
   = [CreateReleaseCall (TokenClient ''t'') ''o'' ''r''
        \<lparr>ID = None, TagName = Some ''v1.0.0'', TargetCommitish = Some sha40,
         Name = Some ''v1.0.0'', Body = Some ''Release v1.0.0 (draft)'', Draft = Some True\<rparr>] \<and>
   filter is_create (trace (snd (DoRelease
      (demoWorld\<lparr>ListReleases := (\<lambda>h c ow rp. Inr [demoOld])\<rparr>) demoShipbot ''/build''
      (demoState\<lparr>target := ''release-1.0''\<rparr>))))
   = [CreateReleaseCall (TokenClient ''t'') ''o'' ''r''
        \<lparr>ID = None, TagName = Some ''v1.0.0'', TargetCommitish = Some ''release-1.0'',
         Name = Some ''v1.0.0'', Body = Some ''Release v1.0.0 (draft)'', Draft = Some True\<rparr>]"
proof -
  let ?w = "demoWorld\<lparr>ListReleases := (\<lambda>h c ow rp. Inr [demoOld])\<rparr>"
  let ?st = "demoState\<lparr>target := ''release-1.0''\<rparr>"
  have l: "ListReleases ?w (trace demoState) (Client demoShipbot) (Owner (Config demoShipbot))
             (Repo (Config demoShipbot)) = Inr [demoOld]"
    by simp
  have t: "\<forall>r\<in>set [demoOld]. sv (TagName r) \<noteq> tag demoState"
    by (simp add: demoOld_def demoState_def sv_def)
  have g: "target demoState = [] \<longrightarrow>
           fst (findCommitSha ?w ''/build'' (tag demoState)
                  (emit (ListReleasesCall (Client demoShipbot) (Owner (Config demoShipbot))
                     (Repo (Config demoShipbot))) demoState))
             = Inr sha40"
    by (simp add: findCommitSha_def demoWorld_def TrimSpace_sha40_newline sha40_clean)
  have l': "ListReleases ?w (trace ?st) (Client demoShipbot) (Owner (Config demoShipbot))
             (Repo (Config demoShipbot)) = Inr [demoOld]"
    by simp
  have t': "\<forall>r\<in>set [demoOld]. sv (TagName r) \<noteq> tag ?st"
    by (simp add: demoOld_def demoState_def sv_def)
  have g': "target ?st = [] \<longrightarrow>
           fst (findCommitSha ?w ''/build'' (tag ?st)
                  (emit (ListReleasesCall (Client demoShipbot) (Owner (Config demoShipbot))
                     (Repo (Config demoShipbot))) ?st))
             = Inr []"
    by simp
  from DoRelease_creates_once [OF l t g] DoRelease_creates_once [OF l' t' g']
  show ?thesis
    by (simp add: demoState_def demoShipbot_def demoConfig_def)
qed

text \<open>
  When the target is not given and the commit cannot be resolved, nothing is created and
  the run ends with the error of the resolution.
\<close>

lemma DoRelease_unresolved:
  assumes "ListReleases w (trace st) (Client sb) (Owner (Config sb)) (Repo (Config sb))
             = Inr releases"
    and "\<forall>r\<in>set releases. sv (TagName r) \<noteq> tag st"
    and "target st = []"
    and "fst (findCommitSha w buildDir (tag st)
                  (emit (ListReleasesCall (Client sb) (Owner (Config sb)) (Repo (Config sb))) st))
             = Inl err"
  shows "fst (DoRelease w sb buildDir st) = Some (ErrFindSha (tag st) err) \<and>
         filter is_create (trace (snd (DoRelease w sb buildDir st)))
           = filter is_create (trace st)"
proof -
  let ?st1 = "emit (ListReleasesCall (Client sb) (Owner (Config sb)) (Repo (Config sb))) st"
  from assms(2) have no: "findRelease (tag st) releases None = None"
    by (simp add: findRelease_filter filter_empty_conv)
  from assms(4) obtain s where f: "findCommitSha w buildDir (tag st) ?st1 = (Inl err, s)"
    by (cases "findCommitSha w buildDir (tag st) ?st1") auto
  then have s: "s = emit (GitRevListCall buildDir (tag st)) ?st1"
    using findCommitSha_state [of w buildDir "tag st" ?st1] by simp
  show ?thesis
    using assms(1,3) no f s
    by (simp add: DoRelease_def Let_def tag_emit target_emit ensureRelease_def resolveTarget_def
        trace_emit)
qed

section \<open>Properties of main\<close>

text \<open>
  C7, as the code has it. The token is looked at first: a non-empty token gives the token
  client, also when a user and a password are set; without a token, a non-empty user and
  password give the basic-auth client; there is no client exactly when the token is empty
  and the user or the password is. With no client the process ends with a fatal error and
  its trace holds no network call. When the steps before the credentials succeed, that
  fatal error is "unable to find github credentials", and with a client the run is
  \<open>DoRelease\<close> with that client.
\<close>

theorem main_credentials:
  "(newClient env = None \<longleftrightarrow>
      githubAccessToken env = [] \<and> (githubUser env = [] \<or> githubPassword env = [])) \<and>
   (newClient env = None \<longrightarrow>
      fst (main w env fl) \<noteq> None \<and> filter is_network (trace (snd (main w env fl))) = []) \<and>
   (githubAccessToken env \<noteq> [] \<longrightarrow>
      newClient env = Some (TokenClient (githubAccessToken env))) \<and>
   (githubAccessToken env = [] \<and> githubUser env \<noteq> [] \<and> githubPassword env \<noteq> [] \<longrightarrow>
      newClient env = Some (BasicAuthClient (githubUser env) (githubPassword env))) \<and>
   (Getwd w [] = Inr cwd \<and> flag_tag fl \<noteq> [] \<and> flag_config fl \<noteq> [] \<and>
    ReadFile w [GetwdCall] (flag_config fl) = Inr bytes \<and> Unmarshal w bytes = Inr config \<longrightarrow>
      main w env fl =
        (case newClient env of
           None \<Rightarrow>
             (Some FatalNoCredentials,
              \<lparr>tag = flag_tag fl, target = flag_target fl,
               trace = [GetwdCall, ReadFileCall (flag_config fl)]\<rparr>)
         | Some c \<Rightarrow>
             (case DoRelease w \<lparr>Client = c, Config = config\<rparr>
                     (case flag_builddir fl of None \<Rightarrow> cwd | Some d \<Rightarrow> d)
                     \<lparr>tag = flag_tag fl, target = flag_target fl,
                      trace = [GetwdCall, ReadFileCall (flag_config fl)]\<rparr> of
                (Some err, st3) \<Rightarrow> (Some (FatalUnexpected err), st3)
              | (None, st3) \<Rightarrow> (None, st3))))"
proof (intro conjI impI)
  show "newClient env = None \<longleftrightarrow>
      githubAccessToken env = [] \<and> (githubUser env = [] \<or> githubPassword env = [])"
    by (auto simp: newClient_def)
  show "newClient env = Some (TokenClient (githubAccessToken env))"
    if "githubAccessToken env \<noteq> []"
    using that by (simp add: newClient_def)
  show "newClient env = Some (BasicAuthClient (githubUser env) (githubPassword env))"
    if "githubAccessToken env = [] \<and> githubUser env \<noteq> [] \<and> githubPassword env \<noteq> []"
    using that by (simp add: newClient_def)
next
  assume n: "newClient env = None"
  show "fst (main w env fl) \<noteq> None"
    using n by (simp add: main_def Let_def emit_def split: sum.splits)
  show "filter is_network (trace (snd (main w env fl))) = []"
    using n by (simp add: main_def Let_def emit_def split: sum.splits)
next
  assume "Getwd w [] = Inr cwd \<and> flag_tag fl \<noteq> [] \<and> flag_config fl \<noteq> [] \<and>
    ReadFile w [GetwdCall] (flag_config fl) = Inr bytes \<and> Unmarshal w bytes = Inr config"
  then show "main w env fl =
        (case newClient env of
           None \<Rightarrow>
             (Some FatalNoCredentials,
              \<lparr>tag = flag_tag fl, target = flag_target fl,
               trace = [GetwdCall, ReadFileCall (flag_config fl)]\<rparr>)
         | Some c \<Rightarrow>
             (case DoRelease w \<lparr>Client = c, Config = config\<rparr>
                     (case flag_builddir fl of None \<Rightarrow> cwd | Some d \<Rightarrow> d)
                     \<lparr>tag = flag_tag fl, target = flag_target fl,
                      trace = [GetwdCall, ReadFileCall (flag_config fl)]\<rparr> of
                (Some err, st3) \<Rightarrow> (Some (FatalUnexpected err), st3)
              | (None, st3) \<Rightarrow> (None, st3)))"
    by (simp add: main_def Let_def emit_def split: option.splits)
qed

theorem main_credentials_witness:
  "newClient (demoEnv [] [] []) = None \<and>
   newClient (demoEnv ''u'' [] []) = None \<and>
   main demoWorld (demoEnv ''u'' [] []) demoFlags =
     (Some FatalNoCredentials,
      \<lparr>tag = ''v1.0.0'', target = [], trace = [GetwdCall, ReadFileCall ''shipbot.yaml'']\<rparr>) \<and>
   filter is_network (trace (snd (main demoWorld (demoEnv ''u'' [] []) demoFlags))) = [] \<and>
   newClient (demoEnv ''u'' ''p'' ''t'') = Some (TokenClient ''t'') \<and>
   newClient (demoEnv ''u'' ''p'' []) = Some (BasicAuthClient ''u'' ''p'')"
  using main_credentials [of "demoEnv [] [] []" demoWorld demoFlags "''/build''" "''owner: o''" demoConfig]
    main_credentials [of "demoEnv ''u'' [] []" demoWorld demoFlags "''/build''" "''owner: o''" demoConfig]
    main_credentials [of "demoEnv ''u'' ''p'' ''t''" demoWorld demoFlags "''/build''" "''owner: o''" demoConfig]
    main_credentials [of "demoEnv ''u'' ''p'' []" demoWorld demoFlags "''/build''" "''owner: o''" demoConfig]
  by (simp add: demoEnv_def demoWorld_def demoFlags_def)

text \<open>
  C7 as stated fails: with both credential modes resolvable (not exactly one) the process
  does not end with a fatal error; it runs with the token client, makes its network calls
  and ends without error.
\<close>

theorem main_both_credentials_counterexample:
  "githubAccessToken (demoEnv ''u'' ''p'' ''t'') \<noteq> [] \<and>
   githubUser (demoEnv ''u'' ''p'' ''t'') \<noteq> [] \<and>
   githubPassword (demoEnv ''u'' ''p'' ''t'') \<noteq> [] \<and>
   fst (main demoWorld (demoEnv ''u'' ''p'' ''t'') demoFlags) = None \<and>
   filter is_network (trace (snd (main demoWorld (demoEnv ''u'' ''p'' ''t'') demoFlags))) =
     [ListReleasesCall (TokenClient ''t'') ''o'' ''r'',
      CreateReleaseCall (TokenClient ''t'') ''o'' ''r''
        \<lparr>ID = None, TagName = Some ''v1.0.0'', TargetCommitish = Some sha40,
         Name = Some ''v1.0.0'', Body = Some ''Release v1.0.0 (draft)'', Draft = Some True\<rparr>,
      ListReleaseAssetsCall (TokenClient ''t'') ''o'' ''r'' 7,
      UploadReleaseAssetCall (TokenClient ''t'') ''o'' ''r'' 7 ''bin-linux-amd64'' ''dist/bin'']"
  by (simp add: main_def DoRelease_def ensureRelease_def resolveTarget_def findCommitSha_def
      releaseAssets_def syncAsset_def newRelease_def newClient_def s_ptr_def b_ptr_def
      i64v_def emit_def Let_def TrimSpace_sha40_newline sha40_clean
      demoEnv_def demoWorld_def demoFlags_def demoConfig_def demoMapping_def)

end
